theory Spec2Isabelle
  imports Main "HOL-Library.Word"
begin

unbundle bit_operations_syntax

section \<open>Data of the program\<close>

text \<open>
  The program is the single file \<^verbatim>\<open>autospotting.go\<close>: the process start (\<^verbatim>\<open>init\<close>,
  \<^verbatim>\<open>main\<close>), the construction of the configuration from flags, and the Lambda
  \<^verbatim>\<open>Handler\<close>. Byte payloads and Go strings are \<^typ>\<open>string\<close> (lists of 8-bit
  characters).
\<close>

type_synonym bytes = string

text \<open>
  The event types of \<^verbatim>\<open>aws-lambda-go/events\<close>, with the fields the program reads.
  A Go slice can be \<^verbatim>\<open>nil\<close> or non-nil and empty, and the handler tests for
  \<^verbatim>\<open>nil\<close>: \<open>Records\<close> is \<open>None\<close> for the nil slice and \<open>Some rs\<close> otherwise.
\<close>

record SNSEntity =
  Message :: string

record SNSEventRecord =
  SNS :: SNSEntity

record SNSEvent =
  Records :: "SNSEventRecord list option"

record CloudWatchEvent =
  DetailType :: string
  Region :: string
  Detail :: bytes

text \<open>
  \<^verbatim>\<open>autospotting.Config\<close> of the core package, with the fields this file reads or
  writes. \<open>'f\<close> stands for \<^verbatim>\<open>float64\<close> and \<open>'d\<close> for the instance-type dataset;
  \<open>InstanceData\<close> is \<open>None\<close> while the pointer is nil.
\<close>

datatype writer = Nil_Writer | Os_Stdout

record ('f, 'd) Config =
  LogFile :: writer
  LogFlag :: int
  MainRegion :: string
  SleepMultiplier :: int
  InstanceData :: "'d option"
  Regions :: string
  MinOnDemandNumber :: "64 word"
  MinOnDemandPercentage :: 'f
  AllowedInstanceTypes :: string
  DisallowedInstanceTypes :: string
  OnDemandPriceMultiplier :: 'f
  SpotPriceBufferPercentage :: 'f
  BiddingPolicy :: string
  FilterByTags :: string
  TagFilteringMode :: string
  SpotProductDescription :: string
  InstanceTerminationMethod :: string
  TerminationNotificationAction :: string
  CronSchedule :: string
  CronScheduleState :: string

text \<open>
  Everything the file calls but does not define is a field of \<open>extern\<close>: the decoders of
  \<^verbatim>\<open>encoding/json\<close> at the two target types (\<open>Inl\<close> carries the text of the error),
  the conversions of \<^verbatim>\<open>strconv\<close> behind the typed flags, the two formatting verbs
  of \<^verbatim>\<open>fmt\<close> that \<^verbatim>\<open>run\<close> uses on numbers, the dataset of
  \<^verbatim>\<open>ec2-instances-info\<close>, the lookup \<^verbatim>\<open>GetInstanceIDDueForTermination\<close> and the
  default constants of the core package, the two float literals of the flag table, and
  the link-time variable \<^verbatim>\<open>Version\<close>.
\<close>

record ('f, 'd) extern =
  Version :: string
  json_Unmarshal_SNSEvent :: "bytes \<Rightarrow> string + SNSEvent"
  json_Unmarshal_CloudWatchEvent :: "bytes \<Rightarrow> string + CloudWatchEvent"
  GetInstanceIDDueForTermination :: "CloudWatchEvent \<Rightarrow> string + string option"
  ec2instancesinfo_Data :: "string + 'd"
  strconv_ParseInt64 :: "string \<Rightarrow> 64 word option"
  strconv_ParseFloat64 :: "string \<Rightarrow> 'f option"
  strconv_ParseBool :: "string \<Rightarrow> bool option"
  fmt_d :: "64 word \<Rightarrow> string"
  fmt_f :: "nat \<Rightarrow> 'f \<Rightarrow> string"
  float_0_0 :: 'f
  float_1_0 :: 'f
  DefaultBiddingPolicy :: string
  DefaultInstanceTerminationMethod :: string
  DefaultTerminationNotificationAction :: string
  DefaultMinOnDemandValue :: "64 word"
  DefaultSpotPriceBufferPercentage :: 'f
  DefaultSpotProductDescription :: string

text \<open>
  What the program does to the outside is a list of events, in the order of the
  statements: a string handed to the standard logger, a line on standard output, and the
  calls into the core package and the dataset library.
\<close>

datatype SpotTermination = NewSpotTermination string

datatype ('f, 'd) event =
    Log string
  | Stdout string
  | Call_Data
  | Call_Run "('f, 'd) Config"
  | Call_GetInstanceIDDueForTermination CloudWatchEvent
  | Call_ExecuteAction SpotTermination string string

text \<open>A handler invocation returns or panics; a process step goes on or exits.\<close>

datatype outcome = Returned | Panic_index_out_of_range

datatype 'a result = Exited int | Continue 'a

definition nl :: string where
  "nl = [CHR 0x0A]"

text \<open>\<^verbatim>\<open>fmt.Sprintln\<close>: the operands separated by spaces, then a newline.\<close>

definition Sprintln :: "string list \<Rightarrow> string" where
  "Sprintln xs = (case xs of [] \<Rightarrow> nl | y # ys \<Rightarrow> y @ concat (map (\<lambda>z. '' '' @ z) ys) @ nl)"

section \<open>The scheduled run\<close>

definition run :: "('f, 'd) extern \<Rightarrow> ('f, 'd) Config \<Rightarrow> ('f, 'd) event list" where
  "run X conf =
    [ Log (Sprintln [''Starting autospotting agent, build'', Version X]),
      Log (''Parsed command line flags: '' @
        ''regions='' @ [CHR 0x27] @ Regions conf @ [CHR 0x27] @ '' '' @
        ''min_on_demand_number='' @ fmt_d X (MinOnDemandNumber conf) @ '' '' @
        ''min_on_demand_percentage='' @ fmt_f X 1 (MinOnDemandPercentage conf) @ '' '' @
        ''allowed_instance_types='' @ AllowedInstanceTypes conf @ '' '' @
        ''disallowed_instance_types='' @ DisallowedInstanceTypes conf @ '' '' @
        ''on_demand_price_multiplier='' @ fmt_f X 2 (OnDemandPriceMultiplier conf) @ '' '' @
        ''spot_price_buffer_percentage='' @ fmt_f X 3 (SpotPriceBufferPercentage conf) @ '' '' @
        ''bidding_policy='' @ BiddingPolicy conf @ '' '' @
        ''tag_filters='' @ FilterByTags conf @ '' '' @
        ''tag_filter_mode='' @ TagFilteringMode conf @ '' '' @
        ''spot_product_description='' @ SpotProductDescription conf @ '' '' @
        ''instance_termination_method='' @ InstanceTerminationMethod conf @ '' '' @
        ''termination_notification_action='' @ TerminationNotificationAction conf @ '' '' @
        ''cron_schedule='' @ CronSchedule conf @ nl @ '' '' @
        ''cron_schedule_state='' @ CronScheduleState conf @ nl),
      Call_Run conf,
      Log (Sprintln [''Execution completed, nothing left to do'']) ]"

section \<open>The handler\<close>

text \<open>
  Lines 119 to 136 of \<^verbatim>\<open>Handler\<close>: the working payload is decoded as a CloudWatch
  event and the event is routed by its \<^verbatim>\<open>DetailType\<close>.
\<close>

definition Handler_route ::
  "('f, 'd) extern \<Rightarrow> ('f, 'd) Config \<Rightarrow> bytes \<Rightarrow> ('f, 'd) event list \<times> outcome" where
  "Handler_route X conf parseEvent =
    (case json_Unmarshal_CloudWatchEvent X parseEvent of
       Inl err \<Rightarrow> ([Log (Sprintln [err])], Returned)
     | Inr cloudwatchEvent \<Rightarrow>
         if DetailType cloudwatchEvent = ''EC2 Spot Instance Interruption Warning'' then
           (case GetInstanceIDDueForTermination X cloudwatchEvent of
              Inl err \<Rightarrow> ([Call_GetInstanceIDDueForTermination cloudwatchEvent], Returned)
            | Inr None \<Rightarrow> ([Call_GetInstanceIDDueForTermination cloudwatchEvent], Returned)
            | Inr (Some instanceID) \<Rightarrow>
                ([Call_GetInstanceIDDueForTermination cloudwatchEvent,
                  Call_ExecuteAction (NewSpotTermination (Region cloudwatchEvent)) instanceID
                    (TerminationNotificationAction conf)], Returned))
         else (run X conf, Returned))"

text \<open>
  \<^verbatim>\<open>Handler\<close>, lines 101 to 117, then the routing above. Indexing
  \<^verbatim>\<open>snsEvent.Records[0]\<close> on an empty slice is Go's run-time panic.
\<close>

definition Handler ::
  "('f, 'd) extern \<Rightarrow> ('f, 'd) Config \<Rightarrow> bytes \<Rightarrow> ('f, 'd) event list \<times> outcome" where
  "Handler X conf rawEvent =
    (let parseEvent = rawEvent in
     case json_Unmarshal_SNSEvent X parseEvent of
       Inl err \<Rightarrow> ([Log (Sprintln [err])], Returned)
     | Inr snsEvent \<Rightarrow>
         (case Records snsEvent of
            None \<Rightarrow> Handler_route X conf parseEvent
          | Some [] \<Rightarrow> ([], Panic_index_out_of_range)
          | Some (snsRecord # _) \<Rightarrow> Handler_route X conf (Message (SNS snsRecord))))"

section \<open>Flags\<close>

text \<open>
  The flag library (\<^verbatim>\<open>namsral/flag\<close>, a variant of Go's \<^verbatim>\<open>flag\<close>) as far as the
  program depends on it. A flag has a name, the assignment of its default value made when
  it is registered, and a setter that converts the text of a value and stores it; the
  conversion of a typed flag can fail. The variable behind a flag is given by the function
  that stores into it. The usage texts are left out.
\<close>

record 's Flag =
  Name :: string
  DefValue :: "'s \<Rightarrow> 's"
  Set_value :: "string \<Rightarrow> ('s \<Rightarrow> 's) option"

definition StringVar :: "(string \<Rightarrow> 's \<Rightarrow> 's) \<Rightarrow> string \<Rightarrow> string \<Rightarrow> 's Flag" where
  "StringVar p name val = \<lparr>Name = name, DefValue = p val, Set_value = (\<lambda>s. Some (p s))\<rparr>"

definition Int64Var ::
  "('f, 'd) extern \<Rightarrow> (64 word \<Rightarrow> 's \<Rightarrow> 's) \<Rightarrow> string \<Rightarrow> 64 word \<Rightarrow> 's Flag" where
  "Int64Var X p name val =
    \<lparr>Name = name, DefValue = p val, Set_value = (\<lambda>s. map_option p (strconv_ParseInt64 X s))\<rparr>"

definition Float64Var ::
  "('f, 'd) extern \<Rightarrow> ('f \<Rightarrow> 's \<Rightarrow> 's) \<Rightarrow> string \<Rightarrow> 'f \<Rightarrow> 's Flag" where
  "Float64Var X p name val =
    \<lparr>Name = name, DefValue = p val, Set_value = (\<lambda>s. map_option p (strconv_ParseFloat64 X s))\<rparr>"

definition BoolVar ::
  "('f, 'd) extern \<Rightarrow> (bool \<Rightarrow> 's \<Rightarrow> 's) \<Rightarrow> string \<Rightarrow> bool \<Rightarrow> 's Flag" where
  "BoolVar X p name val =
    \<lparr>Name = name, DefValue = p val, Set_value = (\<lambda>s. map_option p (strconv_ParseBool X s))\<rparr>"

text \<open>Registering the flags assigns the defaults, in the order of registration.\<close>

definition flag_register :: "'s Flag list \<Rightarrow> 's \<Rightarrow> 's" where
  "flag_register fs st = foldl (\<lambda>st f. DefValue f st) st fs"

text \<open>
  \<^verbatim>\<open>flag.Parse\<close> on the flag assignments it finds (command line, then environment), in
  the order it applies them: a name and the text of the value (\<^verbatim>\<open>true\<close> for a boolean
  flag given bare). It stops at the first name that is not registered and at the first
  value its flag does not convert; with \<^verbatim>\<open>ExitOnError\<close> the process then exits with
  status 2, which is \<open>None\<close> here.
\<close>

fun flag_Parse :: "'s Flag list \<Rightarrow> (string \<times> string) list \<Rightarrow> 's \<Rightarrow> 's option" where
  "flag_Parse fs [] st = Some st"
| "flag_Parse fs ((n, s) # args) st =
    (case find (\<lambda>f. Name f = n) fs of
       None \<Rightarrow> None
     | Some f \<Rightarrow>
         (case Set_value f s of
            None \<Rightarrow> None
          | Some u \<Rightarrow> flag_Parse fs args (u st)))"

text \<open>
  The variables behind the flags of \<^verbatim>\<open>parseCommandLineFlags\<close>: the fields of the
  configuration \<open>c\<close> and the boolean \<open>v\<close> that \<^verbatim>\<open>flag.Bool\<close> allocates.
\<close>

record ('f, 'd) flagvars =
  var_c :: "('f, 'd) Config"
  var_v :: bool

definition field ::
  "(('a \<Rightarrow> 'a) \<Rightarrow> ('f, 'd) Config \<Rightarrow> ('f, 'd) Config) \<Rightarrow> 'a \<Rightarrow> ('f, 'd) flagvars \<Rightarrow> ('f, 'd) flagvars" where
  "field upd x st = st\<lparr>var_c := upd (\<lambda>_. x) (var_c st)\<rparr>"

definition flags :: "('f, 'd) extern \<Rightarrow> ('f, 'd) flagvars Flag list" where
  "flags X =
    [ StringVar (field AllowedInstanceTypes_update) ''allowed_instance_types'' [],
      StringVar (field BiddingPolicy_update) ''bidding_policy'' (DefaultBiddingPolicy X),
      StringVar (field DisallowedInstanceTypes_update) ''disallowed_instance_types'' [],
      StringVar (field InstanceTerminationMethod_update) ''instance_termination_method''
        (DefaultInstanceTerminationMethod X),
      StringVar (field TerminationNotificationAction_update) ''termination_notification_action''
        (DefaultTerminationNotificationAction X),
      Int64Var X (field MinOnDemandNumber_update) ''min_on_demand_number''
        (DefaultMinOnDemandValue X),
      Float64Var X (field MinOnDemandPercentage_update) ''min_on_demand_percentage''
        (float_0_0 X),
      Float64Var X (field OnDemandPriceMultiplier_update) ''on_demand_price_multiplier''
        (float_1_0 X),
      StringVar (field Regions_update) ''regions'' [],
      Float64Var X (field SpotPriceBufferPercentage_update) ''spot_price_buffer_percentage''
        (DefaultSpotPriceBufferPercentage X),
      StringVar (field SpotProductDescription_update) ''spot_product_description''
        (DefaultSpotProductDescription X),
      StringVar (field TagFilteringMode_update) ''tag_filtering_mode'' ''opt-in'',
      StringVar (field FilterByTags_update) ''tag_filters'' [],
      StringVar (field CronSchedule_update) ''cron_schedule'' ''* *'',
      StringVar (field CronScheduleState_update) ''cron_schedule_state'' ''on'',
      BoolVar X (\<lambda>b st. st\<lparr>var_v := b\<rparr>) ''version'' False ]"

section \<open>Building the configuration\<close>

definition printVersion :: "('f, 'd) extern \<Rightarrow> bool \<Rightarrow> ('f, 'd) event list \<times> unit result" where
  "printVersion X v =
    (if v then ([Stdout (Sprintln [''AutoSpotting build:'', Version X])], Exited 0)
     else ([], Continue ()))"

definition parseCommandLineFlags ::
  "('f, 'd) extern \<Rightarrow> ('f, 'd) Config \<Rightarrow> (string \<times> string) list \<Rightarrow>
    ('f, 'd) event list \<times> ('f, 'd) Config result" where
  "parseCommandLineFlags X c args =
    (case flag_Parse (flags X) args (flag_register (flags X) \<lparr>var_c = c, var_v = False\<rparr>) of
       None \<Rightarrow> ([], Exited 2)
     | Some st \<Rightarrow>
         (case printVersion X (var_v st) of
            (t, Exited n) \<Rightarrow> (t, Exited n)
          | (t, Continue _) \<Rightarrow> (t, Continue (var_c st))))"

text \<open>
  \<^verbatim>\<open>initialize\<close>: \<^verbatim>\<open>log.Fatal\<close> hands the text to the logger and exits with
  status 1.
\<close>

definition initialize ::
  "('f, 'd) extern \<Rightarrow> ('f, 'd) Config \<Rightarrow> (string \<times> string) list \<Rightarrow>
    ('f, 'd) event list \<times> ('f, 'd) Config result" where
  "initialize X c args =
    (case parseCommandLineFlags X c args of
       (t, Exited n) \<Rightarrow> (t, Exited n)
     | (t, Continue c') \<Rightarrow>
         (case ec2instancesinfo_Data X of
            Inl err \<Rightarrow> (t @ [Call_Data, Log err], Exited 1)
          | Inr data \<Rightarrow> (t @ [Call_Data], Continue (c'\<lparr>InstanceData := Some data\<rparr>))))"

section \<open>Process start\<close>

text \<open>
  The environment maps names to values; \<^verbatim>\<open>os.Getenv\<close> gives the empty string for a
  name that is not there.
\<close>

type_synonym environ = "string \<rightharpoonup> string"

definition Getenv :: "environ \<Rightarrow> string \<Rightarrow> string" where
  "Getenv env k = (case env k of None \<Rightarrow> [] | Some x \<Rightarrow> x)"

definition UsEast1RegionID :: string where
  "UsEast1RegionID = ''us-east-1''"

definition Ldate :: int where
  "Ldate = 1"

definition Ltime :: int where
  "Ltime = 2"

definition Lshortfile :: int where
  "Lshortfile = 16"

text \<open>
  \<^verbatim>\<open>init\<close>: the fields that the composite literal leaves out have Go's zero values.
\<close>

definition init ::
  "('f, 'd) extern \<Rightarrow> environ \<Rightarrow> (string \<times> string) list \<Rightarrow>
    ('f, 'd) event list \<times> ('f, 'd) Config result" where
  "init X env args =
    (let region = (let r = Getenv env ''AWS_REGION'' in if r \<noteq> [] then r else UsEast1RegionID)
     in initialize X
          \<lparr> LogFile = Os_Stdout,
            LogFlag = Ldate OR Ltime OR Lshortfile,
            MainRegion = region,
            SleepMultiplier = 1,
            InstanceData = None,
            Regions = [],
            MinOnDemandNumber = 0,
            MinOnDemandPercentage = float_0_0 X,
            AllowedInstanceTypes = [],
            DisallowedInstanceTypes = [],
            OnDemandPriceMultiplier = float_0_0 X,
            SpotPriceBufferPercentage = float_0_0 X,
            BiddingPolicy = [],
            FilterByTags = [],
            TagFilteringMode = [],
            SpotProductDescription = [],
            InstanceTerminationMethod = [],
            TerminationNotificationAction = [],
            CronSchedule = [],
            CronScheduleState = [] \<rparr>
          args)"

text \<open>
  \<^verbatim>\<open>main\<close> either hands \<^verbatim>\<open>Handler\<close> to \<^verbatim>\<open>lambda.Start\<close>, which then calls it on
  each payload the platform delivers, or runs once and returns.
\<close>

datatype ('f, 'd) started =
    Lambda_Start "bytes \<Rightarrow> ('f, 'd) event list \<times> outcome"
  | Finished "('f, 'd) event list"

definition main :: "('f, 'd) extern \<Rightarrow> environ \<Rightarrow> ('f, 'd) Config \<Rightarrow> ('f, 'd) started" where
  "main X env conf =
    (if Getenv env ''AWS_LAMBDA_FUNCTION_NAME'' \<noteq> [] then Lambda_Start (Handler X conf)
     else Finished (run X conf))"

text \<open>
  The process: the package's \<^verbatim>\<open>init\<close> runs before \<^verbatim>\<open>main\<close>; an exit inside
  \<^verbatim>\<open>init\<close> ends the process there, and a \<^verbatim>\<open>main\<close> that returns ends it with
  status 0.
\<close>

datatype ('f, 'd) final =
    Terminated int
  | Serving "bytes \<Rightarrow> ('f, 'd) event list \<times> outcome"

definition program ::
  "('f, 'd) extern \<Rightarrow> environ \<Rightarrow> (string \<times> string) list \<Rightarrow> ('f, 'd) event list \<times> ('f, 'd) final" where
  "program X env args =
    (case init X env args of
       (t, Exited n) \<Rightarrow> (t, Terminated n)
     | (t, Continue conf) \<Rightarrow>
         (case main X env conf of
            Lambda_Start h \<Rightarrow> (t, Serving h)
          | Finished t' \<Rightarrow> (t @ t', Terminated 0)))"

section \<open>Notions used by the statements\<close>

text \<open>
  The notification of a payload: the CloudWatch event the handler arrives at when both
  decoding steps go through.
\<close>

definition notification :: "('f, 'd) extern \<Rightarrow> bytes \<Rightarrow> CloudWatchEvent option" where
  "notification X rawEvent =
    (case json_Unmarshal_SNSEvent X rawEvent of
       Inl err \<Rightarrow> None
     | Inr snsEvent \<Rightarrow>
         (case Records snsEvent of
            None \<Rightarrow>
              (case json_Unmarshal_CloudWatchEvent X rawEvent of
                 Inl err \<Rightarrow> None | Inr ev \<Rightarrow> Some ev)
          | Some [] \<Rightarrow> None
          | Some (snsRecord # _) \<Rightarrow>
              (case json_Unmarshal_CloudWatchEvent X (Message (SNS snsRecord)) of
                 Inl err \<Rightarrow> None | Inr ev \<Rightarrow> Some ev)))"

definition interruption_warning :: string where
  "interruption_warning = ''EC2 Spot Instance Interruption Warning''"


fun is_Run :: "('f, 'd) event \<Rightarrow> bool" where
  "is_Run (Call_Run c) = True"
| "is_Run e = False"

fun is_Data :: "('f, 'd) event \<Rightarrow> bool" where
  "is_Data Call_Data = True"
| "is_Data e = False"


fun is_termination_call :: "('f, 'd) event \<Rightarrow> bool" where
  "is_termination_call (Call_GetInstanceIDDueForTermination ev) = True"
| "is_termination_call (Call_ExecuteAction t i a) = True"
| "is_termination_call e = False"



text \<open>
  The flag assignments that \<^verbatim>\<open>flag.Parse\<close> accepts, the latest value given to a flag,
  and whether the latest value given to \<^verbatim>\<open>version\<close> converts to true.
\<close>

definition flag_accepts :: "('f, 'd) extern \<Rightarrow> string \<times> string \<Rightarrow> bool" where
  "flag_accepts X a =
    (case find (\<lambda>f. Name f = fst a) (flags X) of
       None \<Rightarrow> False
     | Some f \<Rightarrow> Set_value f (snd a) \<noteq> None)"

fun last_given :: "string \<Rightarrow> (string \<times> string) list \<Rightarrow> string option" where
  "last_given n [] = None"
| "last_given n ((m, s) # args) =
    (case last_given n args of
       Some s' \<Rightarrow> Some s'
     | None \<Rightarrow> if m = n then Some s else None)"

definition version_requested :: "('f, 'd) extern \<Rightarrow> (string \<times> string) list \<Rightarrow> bool" where
  "version_requested X args =
    (case last_given ''version'' args of
       None \<Rightarrow> False
     | Some s \<Rightarrow> strconv_ParseBool X s = Some True)"

definition result_value :: "'a result \<Rightarrow> 'a option" where
  "result_value r = (case r of Exited n \<Rightarrow> None | Continue x \<Rightarrow> Some x)"



section \<open>An environment for the examples\<close>

text \<open>
  The payloads of the examples: a direct interruption warning, the same warning without
  its detail and with a detail that names no action, a scheduled event, an event whose region is a number, an envelope with an
  empty list of records, and the interruption warning inside an envelope.
\<close>

definition detail_i0123 :: bytes where
  \<open>detail_i0123 = ''{"instance-id":"i-0123","instance-action":"terminate"}''\<close>

definition payload_interruption :: bytes where
  \<open>payload_interruption =
    ''{"detail-type":"EC2 Spot Instance Interruption Warning","region":"us-east-1","detail":''
      @ detail_i0123 @ ''}''\<close>

definition payload_no_detail :: bytes where
  \<open>payload_no_detail =
    ''{"detail-type":"EC2 Spot Instance Interruption Warning","region":"us-east-1"}''\<close>

definition detail_no_action :: bytes where
  \<open>detail_no_action = ''{"instance-id":"i-0123"}''\<close>

definition payload_no_action :: bytes where
  \<open>payload_no_action =
    ''{"detail-type":"EC2 Spot Instance Interruption Warning","region":"us-east-1","detail":''
      @ detail_no_action @ ''}''\<close>

definition payload_scheduled :: bytes where
  \<open>payload_scheduled = ''{"detail-type":"Scheduled Event","region":"eu-west-1"}''\<close>

definition payload_bad_region :: bytes where
  \<open>payload_bad_region = ''{"region":5}''\<close>

definition payload_empty_records :: bytes where
  \<open>payload_empty_records = ''{"Records":[]}''\<close>

definition json_quote :: "string \<Rightarrow> string" where
  "json_quote s =
    [CHR 0x22] @ concat (map (\<lambda>c. if c = CHR 0x22 \<or> c = CHR 0x5C then [CHR 0x5C, c] else [c]) s)
      @ [CHR 0x22]"

definition payload_wrapped :: bytes where
  \<open>payload_wrapped =
    ''{"Records":[{"Sns":{"Message":'' @ json_quote payload_interruption @ ''}}]}''\<close>

definition event_interruption :: CloudWatchEvent where
  "event_interruption =
    \<lparr>DetailType = ''EC2 Spot Instance Interruption Warning'', Region = ''us-east-1'',
     Detail = detail_i0123\<rparr>"

definition event_no_detail :: CloudWatchEvent where
  "event_no_detail =
    \<lparr>DetailType = ''EC2 Spot Instance Interruption Warning'', Region = ''us-east-1'',
     Detail = []\<rparr>"

definition event_no_action :: CloudWatchEvent where
  "event_no_action =
    \<lparr>DetailType = ''EC2 Spot Instance Interruption Warning'', Region = ''us-east-1'',
     Detail = detail_no_action\<rparr>"

definition event_scheduled :: CloudWatchEvent where
  "event_scheduled = \<lparr>DetailType = ''Scheduled Event'', Region = ''eu-west-1'', Detail = []\<rparr>"

text \<open>
  What the libraries answer at these payloads. A JSON object without a \<^verbatim>\<open>Records\<close>
  member leaves the slice nil, the empty array makes it empty and non-nil, and members
  that the target type does not have are skipped. Every other payload is answered like
  the empty one.
\<close>

definition ex_Unmarshal_SNSEvent :: "bytes \<Rightarrow> string + SNSEvent" where
  "ex_Unmarshal_SNSEvent b =
    (if b = payload_wrapped then
       Inr \<lparr>Records = Some [\<lparr>SNS = \<lparr>Message = payload_interruption\<rparr>\<rparr>]\<rparr>
     else if b = payload_empty_records then Inr \<lparr>Records = Some []\<rparr>
     else if b = payload_interruption \<or> b = payload_no_detail \<or> b = payload_no_action
         \<or> b = payload_scheduled \<or> b = payload_bad_region then Inr \<lparr>Records = None\<rparr>
     else Inl ''unexpected end of JSON input'')"

definition ex_Unmarshal_CloudWatchEvent :: "bytes \<Rightarrow> string + CloudWatchEvent" where
  "ex_Unmarshal_CloudWatchEvent b =
    (if b = payload_interruption then Inr event_interruption
     else if b = payload_no_detail then Inr event_no_detail
     else if b = payload_no_action then Inr event_no_action
     else if b = payload_scheduled then Inr event_scheduled
     else if b = payload_empty_records \<or> b = payload_wrapped then
       Inr \<lparr>DetailType = [], Region = [], Detail = []\<rparr>
     else if b = payload_bad_region then
       Inl ''json: cannot unmarshal number into Go struct field CloudWatchEvent.region of type string''
     else Inl ''unexpected end of JSON input'')"

definition ex_GetInstanceIDDueForTermination :: "CloudWatchEvent \<Rightarrow> string + string option" where
  "ex_GetInstanceIDDueForTermination ev =
    (if Detail ev = detail_i0123 then Inr (Some ''i-0123'')
     else if Detail ev = [] then Inl ''unexpected end of JSON input''
     else Inr None)"

definition ex_ParseBool :: "string \<Rightarrow> bool option" where
  "ex_ParseBool s =
    (if s \<in> set [''1'', ''t'', ''T'', ''TRUE'', ''true'', ''True''] then Some True
     else if s \<in> set [''0'', ''f'', ''F'', ''FALSE'', ''false'', ''False''] then Some False
     else None)"

text \<open>
  Decimal numerals, for the numbers of the examples; the floats of the examples are whole
  numbers, held as integers.
\<close>

fun decimal :: "nat \<Rightarrow> string" where
  "decimal n =
    (if n < 10 then [char_of (n + 48)] else decimal (n div 10) @ [char_of (n mod 10 + 48)])"

definition ex_fmt_d :: "64 word \<Rightarrow> string" where
  "ex_fmt_d w = (if sint w < 0 then ''-'' @ decimal (nat (- sint w)) else decimal (nat (sint w)))"

definition ex_fmt_f :: "nat \<Rightarrow> int \<Rightarrow> string" where
  "ex_fmt_f p x =
    (if x < 0 then ''-'' @ decimal (nat (- x)) else decimal (nat x)) @ ''.'' @ replicate p CHR ''0''"

definition ex_ParseInt64 :: "string \<Rightarrow> 64 word option" where
  "ex_ParseInt64 s = (if s = ''0'' then Some 0 else if s = ''2'' then Some 2 else None)"

definition ex_ParseFloat64 :: "string \<Rightarrow> int option" where
  "ex_ParseFloat64 s = (if s = ''0'' then Some 0 else if s = ''10'' then Some 10 else None)"

definition X0 :: "(int, unit) extern" where
  "X0 =
    \<lparr> Version = ''number missing'',
      json_Unmarshal_SNSEvent = ex_Unmarshal_SNSEvent,
      json_Unmarshal_CloudWatchEvent = ex_Unmarshal_CloudWatchEvent,
      GetInstanceIDDueForTermination = ex_GetInstanceIDDueForTermination,
      ec2instancesinfo_Data = Inr (),
      strconv_ParseInt64 = ex_ParseInt64,
      strconv_ParseFloat64 = ex_ParseFloat64,
      strconv_ParseBool = ex_ParseBool,
      fmt_d = ex_fmt_d,
      fmt_f = ex_fmt_f,
      float_0_0 = 0,
      float_1_0 = 1,
      DefaultBiddingPolicy = ''normal'',
      DefaultInstanceTerminationMethod = ''autoscaling'',
      DefaultTerminationNotificationAction = ''auto'',
      DefaultMinOnDemandValue = 0,
      DefaultSpotPriceBufferPercentage = 5,
      DefaultSpotProductDescription = ''Linux/UNIX (Amazon VPC)'' \<rparr>"

definition env0 :: environ where
  "env0 = [''AWS_REGION'' \<mapsto> ''eu-west-1'', ''AWS_LAMBDA_FUNCTION_NAME'' \<mapsto> ''autospotting'']"

text \<open>The configuration that \<open>init\<close> builds in \<open>env0\<close> from no flags at all.\<close>

definition conf0 :: "(int, unit) Config" where
  "conf0 =
    \<lparr> LogFile = Os_Stdout,
      LogFlag = 19,
      MainRegion = ''eu-west-1'',
      SleepMultiplier = 1,
      InstanceData = Some (),
      Regions = [],
      MinOnDemandNumber = 0,
      MinOnDemandPercentage = 0,
      AllowedInstanceTypes = [],
      DisallowedInstanceTypes = [],
      OnDemandPriceMultiplier = 1,
      SpotPriceBufferPercentage = 5,
      BiddingPolicy = ''normal'',
      FilterByTags = [],
      TagFilteringMode = ''opt-in'',
      SpotProductDescription = ''Linux/UNIX (Amazon VPC)'',
      InstanceTerminationMethod = ''autoscaling'',
      TerminationNotificationAction = ''auto'',
      CronSchedule = ''* *'',
      CronScheduleState = ''on'' \<rparr>"


text \<open>The same environment with a dataset that cannot be read.\<close>

definition X1 :: "(int, unit) extern" where
  "X1 = X0\<lparr>ec2instancesinfo_Data := Inl ''open data file: no such file''\<rparr>"


section \<open>The flag table\<close>

text \<open>
  \<^verbatim>\<open>flag.Parse\<close> succeeds exactly on lists of accepted assignments. Each flag stores
  into its own variable: the setter of \<^verbatim>\<open>version\<close> is the only one that writes \<open>v\<close>,
  the setter of \<^verbatim>\<open>bidding_policy\<close> the only one that writes \<open>BiddingPolicy\<close>, and no
  flag writes \<open>MainRegion\<close>.
\<close>

lemmas flag_table_defs = flags_def StringVar_def Int64Var_def Float64Var_def BoolVar_def

lemma flag_Parse_accepted:
  "list_all (flag_accepts X) args \<Longrightarrow> \<exists>st'. flag_Parse (flags X) args st = Some st'"
  by (induction args arbitrary: st) (auto simp: flag_accepts_def split: option.splits)

lemma flag_Parse_Some_accepts:
  "flag_Parse (flags X) args st = Some st' \<Longrightarrow> list_all (flag_accepts X) args"
  by (induction args arbitrary: st) (auto simp: flag_accepts_def split: option.splits)

lemma find_in_table:
  "find (\<lambda>f. Name f = n) fs = Some f \<Longrightarrow> f \<in> set fs \<and> Name f = n"
  by (induction fs) (auto split: if_splits)

lemma version_flag_unique:
  "\<forall>f\<in>set (flags X). Name f = ''version'' \<longrightarrow>
     Set_value f = (\<lambda>s. map_option (\<lambda>b st. st\<lparr>var_v := b\<rparr>) (strconv_ParseBool X s))"
  by (simp add: flag_table_defs)

lemma other_flags_keep_var_v:
  "\<forall>f\<in>set (flags X). Name f \<noteq> ''version'' \<longrightarrow>
     (\<forall>s u st. Set_value f s = Some u \<longrightarrow> var_v (u st) = var_v st)"
  by (auto simp: flag_table_defs field_def)

lemma bidding_policy_flag_unique:
  "\<forall>f\<in>set (flags X). Name f = ''bidding_policy'' \<longrightarrow>
     Set_value f = (\<lambda>s. Some (field BiddingPolicy_update s))"
  by (simp add: flag_table_defs)

lemma other_flags_keep_BiddingPolicy:
  "\<forall>f\<in>set (flags X). Name f \<noteq> ''bidding_policy'' \<longrightarrow>
     (\<forall>s u st. Set_value f s = Some u \<longrightarrow> BiddingPolicy (var_c (u st)) = BiddingPolicy (var_c st))"
  by (auto simp: flag_table_defs field_def)

lemma flags_keep_MainRegion:
  "\<forall>f\<in>set (flags X). \<forall>s u st. Set_value f s = Some u \<longrightarrow>
     MainRegion (var_c (u st)) = MainRegion (var_c st)"
  by (auto simp: flag_table_defs field_def)

text \<open>What registration and parsing leave in the three variables.\<close>

lemma flag_register_var_v: "var_v (flag_register (flags X) st) = False"
  by (simp add: flag_register_def flag_table_defs field_def)

lemma flag_register_BiddingPolicy:
  "BiddingPolicy (var_c (flag_register (flags X) st)) = DefaultBiddingPolicy X"
  by (simp add: flag_register_def flag_table_defs field_def)

lemma flag_register_MainRegion:
  "MainRegion (var_c (flag_register (flags X) st)) = MainRegion (var_c st)"
  by (simp add: flag_register_def flag_table_defs field_def)

lemma flag_Parse_var_v:
  "flag_Parse (flags X) args st = Some st' \<Longrightarrow>
   var_v st' = (case last_given ''version'' args of
                  None \<Rightarrow> var_v st
                | Some s \<Rightarrow> strconv_ParseBool X s = Some True)"
proof (induction args arbitrary: st)
  case Nil
  then show ?case by simp
next
  case (Cons a args)
  obtain n s where a: "a = (n, s)" by (cases a)
  from Cons.prems a obtain f u where
    f: "find (\<lambda>f. Name f = n) (flags X) = Some f" and u: "Set_value f s = Some u"
    and rest: "flag_Parse (flags X) args (u st) = Some st'"
    by (auto split: option.splits)
  from f have mem: "f \<in> set (flags X)" and name: "Name f = n"
    using find_in_table by fastforce+
  note IH = Cons.IH [OF rest]
  show ?case
  proof (cases "last_given ''version'' args")
    case (Some s')
    with IH a show ?thesis by simp
  next
    case None
    show ?thesis
    proof (cases "n = ''version''")
      case True
      with mem name version_flag_unique [of X]
      have "Set_value f s = map_option (\<lambda>b st. st\<lparr>var_v := b\<rparr>) (strconv_ParseBool X s)"
        by simp
      with u obtain b where "strconv_ParseBool X s = Some b" and "u = (\<lambda>st. st\<lparr>var_v := b\<rparr>)"
        by auto
      with IH None a True show ?thesis by auto
    next
      case False
      with mem name u other_flags_keep_var_v [of X] have "var_v (u st) = var_v st"
        by blast
      with IH None a False show ?thesis by simp
    qed
  qed
qed

lemma flag_Parse_BiddingPolicy:
  "flag_Parse (flags X) args st = Some st' \<Longrightarrow>
   BiddingPolicy (var_c st') = (case last_given ''bidding_policy'' args of
                  None \<Rightarrow> BiddingPolicy (var_c st)
                | Some s \<Rightarrow> s)"
proof (induction args arbitrary: st)
  case Nil
  then show ?case by simp
next
  case (Cons a args)
  obtain n s where a: "a = (n, s)" by (cases a)
  from Cons.prems a obtain f u where
    f: "find (\<lambda>f. Name f = n) (flags X) = Some f" and u: "Set_value f s = Some u"
    and rest: "flag_Parse (flags X) args (u st) = Some st'"
    by (auto split: option.splits)
  from f have mem: "f \<in> set (flags X)" and name: "Name f = n"
    using find_in_table by fastforce+
  note IH = Cons.IH [OF rest]
  show ?case
  proof (cases "last_given ''bidding_policy'' args")
    case (Some s')
    with IH a show ?thesis by simp
  next
    case None
    show ?thesis
    proof (cases "n = ''bidding_policy''")
      case True
      with mem name bidding_policy_flag_unique [of X]
      have "Set_value f s = Some (field BiddingPolicy_update s)"
        by simp
      with u have "u = field BiddingPolicy_update s"
        by simp
      with IH None a True show ?thesis by (simp add: field_def)
    next
      case False
      with mem name u other_flags_keep_BiddingPolicy [of X]
      have "BiddingPolicy (var_c (u st)) = BiddingPolicy (var_c st)"
        by blast
      with IH None a False show ?thesis by simp
    qed
  qed
qed

lemma flag_Parse_MainRegion:
  "flag_Parse (flags X) args st = Some st' \<Longrightarrow> MainRegion (var_c st') = MainRegion (var_c st)"
proof (induction args arbitrary: st)
  case Nil
  then show ?case by simp
next
  case (Cons a args)
  obtain n s where a: "a = (n, s)" by (cases a)
  from Cons.prems a obtain f u where
    f: "find (\<lambda>f. Name f = n) (flags X) = Some f" and u: "Set_value f s = Some u"
    and rest: "flag_Parse (flags X) args (u st) = Some st'"
    by (auto split: option.splits)
  from f have "f \<in> set (flags X)"
    using find_in_table by fastforce
  with u flags_keep_MainRegion [of X] have "MainRegion (var_c (u st)) = MainRegion (var_c st)"
    by blast
  with Cons.IH [OF rest] show ?case by simp
qed

text \<open>The three ways out of \<^verbatim>\<open>parseCommandLineFlags\<close>.\<close>

lemma parseCommandLineFlags_rejected:
  "\<not> list_all (flag_accepts X) args \<Longrightarrow> parseCommandLineFlags X c args = ([], Exited 2)"
  using flag_Parse_Some_accepts [of X args]
  by (auto simp: parseCommandLineFlags_def split: option.splits)

lemma parseCommandLineFlags_version:
  assumes "list_all (flag_accepts X) args" and "version_requested X args"
  shows "parseCommandLineFlags X c args =
    ([Stdout (Sprintln [''AutoSpotting build:'', Version X])], Exited 0)"
proof -
  let ?st0 = "flag_register (flags X) \<lparr>var_c = c, var_v = False\<rparr>"
  from assms(1) obtain st where st: "flag_Parse (flags X) args ?st0 = Some st"
    using flag_Parse_accepted by blast
  from flag_Parse_var_v [OF st] assms(2) have "var_v st"
    by (simp add: version_requested_def split: option.splits)
  with st show ?thesis
    by (simp add: parseCommandLineFlags_def printVersion_def)
qed

lemma parseCommandLineFlags_continue:
  assumes "list_all (flag_accepts X) args" and "\<not> version_requested X args"
  shows "\<exists>c'. parseCommandLineFlags X c args = ([], Continue c')
    \<and> MainRegion c' = MainRegion c
    \<and> BiddingPolicy c' = (case last_given ''bidding_policy'' args of
                             None \<Rightarrow> DefaultBiddingPolicy X | Some s \<Rightarrow> s)"
proof -
  let ?st0 = "flag_register (flags X) \<lparr>var_c = c, var_v = False\<rparr>"
  from assms(1) obtain st where st: "flag_Parse (flags X) args ?st0 = Some st"
    using flag_Parse_accepted by blast
  from flag_Parse_var_v [OF st] assms(2) have "\<not> var_v st"
    by (simp add: version_requested_def flag_register_var_v split: option.splits)
  with st have "parseCommandLineFlags X c args = ([], Continue (var_c st))"
    by (simp add: parseCommandLineFlags_def printVersion_def)
  moreover have "MainRegion (var_c st) = MainRegion c"
    using flag_Parse_MainRegion [OF st] by (simp add: flag_register_MainRegion)
  moreover have "BiddingPolicy (var_c st) = (case last_given ''bidding_policy'' args of
                             None \<Rightarrow> DefaultBiddingPolicy X | Some s \<Rightarrow> s)"
    using flag_Parse_BiddingPolicy [OF st]
    by (simp add: flag_register_BiddingPolicy split: option.splits)
  ultimately show ?thesis by simp
qed


text \<open>Every text is accepted as a bidding policy.\<close>

lemma accepts_bidding_policy: "flag_accepts X (''bidding_policy'', s)"
  by (simp add: flag_accepts_def flag_table_defs)

lemma accepts_without_bidding_policy:
  "list_all (flag_accepts X) (filter (\<lambda>a. fst a \<noteq> ''bidding_policy'') args)
    \<Longrightarrow> list_all (flag_accepts X) args"
proof (induction args)
  case Nil
  then show ?case by simp
next
  case (Cons a args)
  then show ?case
    using accepts_bidding_policy [of X "snd a"] by (cases a) (auto split: if_splits)
qed

section \<open>The run and the handler\<close>

lemma run_calls: "filter is_Run (run X conf) = [Call_Run conf]"
  by (simp add: run_def)

lemma run_last: "last (run X conf) = Log (Sprintln [''Execution completed, nothing left to do''])"
  by (simp add: run_def)

lemma run_no_termination_call: "\<not> list_ex is_termination_call (run X conf)"
  by (simp add: run_def)




lemma run_Call_Run: "Call_Run c \<in> set (run X conf) \<longleftrightarrow> c = conf"
  by (auto simp: run_def)

lemma Handler_route_Call_Run:
  "Call_Run c \<in> set (fst (Handler_route X conf b)) \<Longrightarrow> c = conf"
  by (auto simp: Handler_route_def run_Call_Run split: sum.splits option.splits if_splits)

lemma Handler_Call_Run:
  "Call_Run c \<in> set (fst (Handler X conf b)) \<Longrightarrow> c = conf"
  by (auto simp: Handler_def dest: Handler_route_Call_Run split: sum.splits option.splits list.splits)

text \<open>
  With a nil list of records the handler routes the payload itself, and it returns on
  every payload except those whose list of records is empty and not nil.
\<close>

lemma Handler_nil_Records:
  "json_Unmarshal_SNSEvent X rawEvent = Inr snsEvent \<Longrightarrow> Records snsEvent = None \<Longrightarrow>
   Handler X conf rawEvent = Handler_route X conf rawEvent"
  by (simp add: Handler_def)



text \<open>The handler on a payload with a notification, and on one without.\<close>

lemma Handler_on_notification:
  "notification X rawEvent = Some ev \<Longrightarrow>
   Handler X conf rawEvent =
     (if DetailType ev = interruption_warning then
        (case GetInstanceIDDueForTermination X ev of
           Inl err \<Rightarrow> ([Call_GetInstanceIDDueForTermination ev], Returned)
         | Inr None \<Rightarrow> ([Call_GetInstanceIDDueForTermination ev], Returned)
         | Inr (Some instanceID) \<Rightarrow>
             ([Call_GetInstanceIDDueForTermination ev,
               Call_ExecuteAction (NewSpotTermination (Region ev)) instanceID
                 (TerminationNotificationAction conf)], Returned))
      else (run X conf, Returned))"
  by (auto simp: notification_def Handler_def Handler_route_def interruption_warning_def
      split: sum.splits option.splits list.splits)




text \<open>
  Claim C4. For every interruption-typed notification for which an instance identifier
  is found, the handler executes exactly one termination action: on a termination
  handler made for the region of the event, whatever \<open>MainRegion\<close> of the
  configuration is, with the identifier found and the
  \<open>TerminationNotificationAction\<close> of the configuration.
\<close>

theorem Handler_termination_action:
  assumes "notification X rawEvent = Some ev"
    and "DetailType ev = interruption_warning"
    and "GetInstanceIDDueForTermination X ev = Inr (Some instanceID)"
  shows "Handler X conf rawEvent =
    ([Call_GetInstanceIDDueForTermination ev,
      Call_ExecuteAction (NewSpotTermination (Region ev)) instanceID
        (TerminationNotificationAction conf)], Returned)"
  using assms by (simp add: Handler_on_notification)



section \<open>Initialization and process start\<close>

lemma parseCommandLineFlags_MainRegion:
  "parseCommandLineFlags X c args = (t, Continue c') \<Longrightarrow> MainRegion c' = MainRegion c"
  by (auto simp: parseCommandLineFlags_def printVersion_def flag_register_MainRegion
      split: option.splits if_splits dest!: flag_Parse_MainRegion)

lemma initialize_MainRegion:
  "initialize X c args = (t, Continue c') \<Longrightarrow> MainRegion c' = MainRegion c"
  by (auto simp: initialize_def split: prod.splits result.splits sum.splits
      dest!: parseCommandLineFlags_MainRegion)

lemma init_MainRegion:
  "init X env args = (t, Continue conf) \<Longrightarrow>
   MainRegion conf =
     (if Getenv env ''AWS_REGION'' \<noteq> [] then Getenv env ''AWS_REGION'' else ''us-east-1'')"
  by (auto simp: init_def Let_def UsEast1RegionID_def dest!: initialize_MainRegion
      split: if_splits)

lemma initialize_no_Run: "\<not> list_ex is_Run (fst (initialize X c args))"
  by (auto simp: initialize_def parseCommandLineFlags_def printVersion_def
      split: prod.splits result.splits sum.splits option.splits if_splits)

lemma init_initialize: "\<exists>c. init X env args = initialize X c args"
  unfolding init_def Let_def by blast

lemma init_no_Run: "\<not> list_ex is_Run (fst (init X env args))"
  by (simp add: init_def Let_def initialize_no_Run)

text \<open>
  Claim C5, as the code has it. \<^verbatim>\<open>flag.Parse\<close> runs over every flag given before the
  version is looked at. When it accepts them all and the version is requested, the
  process prints the version line and exits with status 0: the dataset is not fetched
  and no value is validated. When it rejects one of them, the process exits with
  status 2 and prints no version line, requested or not.
\<close>

theorem version_short_circuit:
  "(list_all (flag_accepts X) args \<and> version_requested X args \<longrightarrow>
      program X env args =
        ([Stdout (Sprintln [''AutoSpotting build:'', Version X])], Terminated 0)
      \<and> \<not> list_ex is_Data (fst (program X env args)))
   \<and> (\<not> list_all (flag_accepts X) args \<longrightarrow> program X env args = ([], Terminated 2))"
  by (simp add: program_def init_def initialize_def parseCommandLineFlags_version
      parseCommandLineFlags_rejected)

text \<open>
  Claim C6, as the code has it. The bidding policy is a string flag without validation:
  whatever text it is given, if the other flags are accepted, the version is not
  requested and the dataset is there, the configuration is built and its
  \<open>BiddingPolicy\<close> is that text.
\<close>

theorem BiddingPolicy_taken_as_given:
  assumes "last_given ''bidding_policy'' args = Some s"
    and "list_all (flag_accepts X) (filter (\<lambda>a. fst a \<noteq> ''bidding_policy'') args)"
    and "\<not> version_requested X args"
    and "ec2instancesinfo_Data X = Inr data"
  shows "fst (init X env args) = [Call_Data]
    \<and> map_option BiddingPolicy (result_value (snd (init X env args))) = Some s"
proof -
  obtain c where init: "init X env args = initialize X c args"
    using init_initialize by blast
  from assms(2) have "list_all (flag_accepts X) args"
    by (rule accepts_without_bidding_policy)
  with assms(3) obtain c' where
    "parseCommandLineFlags X c args = ([], Continue c')" and "BiddingPolicy c' = s"
    using parseCommandLineFlags_continue [of X args c] assms(1) by auto
  with assms(4) show ?thesis
    unfolding init by (simp add: initialize_def result_value_def)
qed

text \<open>
  Claim C8. When the dataset cannot be fetched, a process that reaches the fetch logs the
  error and exits with status 1 at once; and whatever the flags are, the process ends
  during initialization, never serves events and never calls the engine.
\<close>

theorem fetch_failure_is_fatal:
  assumes "ec2instancesinfo_Data X = Inl err"
  shows "(list_all (flag_accepts X) args \<and> \<not> version_requested X args \<longrightarrow>
            program X env args = ([Call_Data, Log err], Terminated 1))
    \<and> (\<exists>n. snd (program X env args) = Terminated n)
    \<and> \<not> list_ex is_Run (fst (program X env args))"
proof -
  obtain c where init: "init X env args = initialize X c args"
    using init_initialize by blast
  have exits: "\<exists>n. snd (initialize X c args) = Exited n"
    using assms by (simp add: initialize_def split: prod.splits result.splits)
  have "list_all (flag_accepts X) args \<and> \<not> version_requested X args \<longrightarrow>
          initialize X c args = ([Call_Data, Log err], Exited 1)"
    using assms parseCommandLineFlags_continue [of X args c]
    by (auto simp: initialize_def)
  moreover from exits have "\<exists>n. program X env args = (fst (initialize X c args), Terminated n)"
    unfolding program_def init by (auto split: prod.splits)
  ultimately show ?thesis
    using initialize_no_Run [of X c args] by (auto simp: program_def init)
qed

text \<open>
  Claim C9. \<^verbatim>\<open>main\<close> looks at \<^verbatim>\<open>AWS_LAMBDA_FUNCTION_NAME\<close> once. When it has a
  value (the empty string counts as none, as \<^verbatim>\<open>os.Getenv\<close> sees it), the handler is
  handed to \<^verbatim>\<open>lambda.Start\<close> and the process serves events. When it has none, the
  process does one run: one call of the engine, no decoding and no termination call, the
  completion line as its last log line, and exit status 0.
\<close>

theorem entry_mode:
  "(Getenv env ''AWS_LAMBDA_FUNCTION_NAME'' \<noteq> [] \<longrightarrow>
      main X env conf = Lambda_Start (Handler X conf)
      \<and> (init X env args = (t, Continue conf) \<longrightarrow>
           program X env args = (t, Serving (Handler X conf))))
   \<and> (Getenv env ''AWS_LAMBDA_FUNCTION_NAME'' = [] \<longrightarrow>
      main X env conf = Finished (run X conf)
      \<and> filter is_Run (run X conf) = [Call_Run conf]
      \<and> \<not> list_ex is_termination_call (run X conf)
      \<and> last (run X conf) = Log (Sprintln [''Execution completed, nothing left to do''])
      \<and> (init X env args = (t, Continue conf) \<longrightarrow>
           program X env args = (t @ run X conf, Terminated 0)))"
  using run_no_termination_call [of X conf]
  by (simp add: main_def program_def run_calls run_last)

text \<open>
  Claim C10. In a process that gets through initialization, \<open>MainRegion\<close> is the value
  of \<^verbatim>\<open>AWS_REGION\<close> when that is not empty and \<^verbatim>\<open>us-east-1\<close> otherwise, whatever
  the flags are; and every configuration handed to the engine, in the direct run and in
  every invocation of the handler, has this \<open>MainRegion\<close>. The configuration is passed
  by value here: the file never assigns to it after \<^verbatim>\<open>init\<close>.
\<close>

theorem MainRegion_fixed_at_init:
  assumes "init X env args = (t, Continue conf)"
  shows "MainRegion conf =
      (if Getenv env ''AWS_REGION'' \<noteq> [] then Getenv env ''AWS_REGION'' else ''us-east-1'')
    \<and> (\<forall>c. Call_Run c \<in> set (fst (program X env args)) \<longrightarrow> MainRegion c = MainRegion conf)
    \<and> (\<forall>h rawEvent c. snd (program X env args) = Serving h \<longrightarrow>
          Call_Run c \<in> set (fst (h rawEvent)) \<longrightarrow> MainRegion c = MainRegion conf)"
proof -
  have "\<not> list_ex is_Run t"
    using init_no_Run [of X env args] assms by simp
  then have t: "\<And>c. Call_Run c \<notin> set t"
    by (auto simp: list_ex_iff)
  show ?thesis
    using assms t init_MainRegion [OF assms]
    by (auto simp: program_def main_def run_Call_Run dest: Handler_Call_Run)
qed


section \<open>The examples\<close>

lemmas example_defs =
  X0_def ex_Unmarshal_SNSEvent_def ex_Unmarshal_CloudWatchEvent_def
  ex_GetInstanceIDDueForTermination_def payload_interruption_def payload_no_detail_def
  payload_no_action_def detail_no_action_def event_no_action_def
  payload_scheduled_def payload_bad_region_def payload_empty_records_def payload_wrapped_def
  json_quote_def detail_i0123_def event_interruption_def event_no_detail_def event_scheduled_def

lemmas init_defs =
  init_def initialize_def parseCommandLineFlags_def flag_register_def flag_table_defs field_def
  printVersion_def Getenv_def Ldate_def Ltime_def Lshortfile_def UsEast1RegionID_def
  ex_ParseBool_def ex_ParseInt64_def ex_ParseFloat64_def


lemma ex_notification_wrapped: "notification X0 payload_wrapped = Some event_interruption"
  by (simp add: notification_def example_defs)

lemma ex_notification_no_detail: "notification X0 payload_no_detail = Some event_no_detail"
  by (simp add: notification_def example_defs)


lemma ex_notification_scheduled: "notification X0 payload_scheduled = Some event_scheduled"
  by (simp add: notification_def example_defs)



lemma ex_init_lambda: "init X0 env0 [] = ([Call_Data], Continue conf0)"
  by (simp add: init_defs X0_def env0_def conf0_def)

lemma ex_init_direct:
  "init X0 Map.empty [] = ([Call_Data], Continue (conf0\<lparr>MainRegion := ''us-east-1''\<rparr>))"
  by (simp add: init_defs X0_def conf0_def)


text \<open>
  Claim C2. The handler is to return normally on every payload. On the envelope with an
  empty list of records it does not: the slice is not nil, the guard lets it through,
  and indexing its first element panics.
\<close>

theorem Handler_empty_Records_panics:
  "Handler X0 conf0 payload_empty_records = ([], Panic_index_out_of_range)"
  by (simp add: Handler_def example_defs)

text \<open>
  Claim C3. An envelope without records is to be handled like the outer payload taken as
  a notification. With an empty list of records the outer payload decodes to a
  notification without detail type, which is the scheduled run; the handler panics
  instead.
\<close>

theorem Handler_empty_Records_not_routed:
  "json_Unmarshal_SNSEvent X0 payload_empty_records = Inr \<lparr>Records = Some []\<rparr>
   \<and> Handler_route X0 conf0 payload_empty_records = (run X0 conf0, Returned)
   \<and> snd (Handler X0 conf0 payload_empty_records) = Panic_index_out_of_range"
  by (simp add: Handler_def Handler_route_def example_defs)

theorem Handler_termination_action_witness:
  "notification X0 payload_wrapped = Some event_interruption
   \<and> DetailType event_interruption = interruption_warning
   \<and> GetInstanceIDDueForTermination X0 event_interruption = Inr (Some ''i-0123'')
   \<and> TerminationNotificationAction conf0 = ''auto''
   \<and> Region event_interruption = ''us-east-1''
   \<and> MainRegion conf0 = ''eu-west-1''
   \<and> Handler X0 conf0 payload_wrapped =
       ([Call_GetInstanceIDDueForTermination event_interruption,
         Call_ExecuteAction (NewSpotTermination ''us-east-1'') ''i-0123'' ''auto''], Returned)"
proof -
  have a: "DetailType event_interruption = interruption_warning"
    by (simp add: event_interruption_def interruption_warning_def)
  have b: "GetInstanceIDDueForTermination X0 event_interruption = Inr (Some ''i-0123'')"
    by (simp add: example_defs)
  have c: "TerminationNotificationAction conf0 = ''auto''" "MainRegion conf0 = ''eu-west-1''"
    by (simp_all add: conf0_def)
  have d: "Region event_interruption = ''us-east-1''"
    by (simp add: event_interruption_def)
  show ?thesis
    using Handler_termination_action [OF ex_notification_wrapped a b, where conf = conf0] a b c d
      ex_notification_wrapped
    by simp
qed

text \<open>
  The version is requested next to a number that does not convert: the process exits
  with status 2 and prints nothing.
\<close>

theorem version_with_malformed_flag_counterexample:
  "version_requested X0 [(''version'', ''true''), (''min_on_demand_number'', ''abc'')]
   \<and> program X0 env0 [(''version'', ''true''), (''min_on_demand_number'', ''abc'')]
       = ([], Terminated 2)"
  by (simp add: version_requested_def program_def init_defs X0_def)

theorem version_short_circuit_witness:
  "list_all (flag_accepts X0) [(''version'', ''true''), (''regions'', ''eu-*'')]
   \<and> version_requested X0 [(''version'', ''true''), (''regions'', ''eu-*'')]
   \<and> program X0 env0 [(''version'', ''true''), (''regions'', ''eu-*'')] =
       ([Stdout (Sprintln [''AutoSpotting build:'', Version X0])], Terminated 0)
   \<and> \<not> list_ex is_Data (fst (program X0 env0 [(''version'', ''true''), (''regions'', ''eu-*'')]))
   \<and> \<not> list_all (flag_accepts X0) [(''version'', ''true''), (''verbose'', ''1'')]
   \<and> program X0 env0 [(''version'', ''true''), (''verbose'', ''1'')] = ([], Terminated 2)"
proof -
  have a: "list_all (flag_accepts X0) [(''version'', ''true''), (''regions'', ''eu-*'')]"
    by (simp add: flag_accepts_def flag_table_defs X0_def ex_ParseBool_def)
  have b: "version_requested X0 [(''version'', ''true''), (''regions'', ''eu-*'')]"
    by (simp add: version_requested_def X0_def ex_ParseBool_def)
  have c: "\<not> list_all (flag_accepts X0) [(''version'', ''true''), (''verbose'', ''1'')]"
    by (simp add: flag_accepts_def flag_table_defs X0_def ex_ParseBool_def)
  show ?thesis
    using version_short_circuit [where X = X0 and env = env0
        and args = "[(''version'', ''true''), (''regions'', ''eu-*'')]"]
      version_short_circuit [where X = X0 and env = env0
        and args = "[(''version'', ''true''), (''verbose'', ''1'')]"] a b c
    by simp
qed

text \<open>A bidding policy that is neither of the two known ones is built in.\<close>

theorem BiddingPolicy_foo_counterexample:
  "map_option BiddingPolicy (result_value (snd (init X0 env0 [(''bidding_policy'', ''foo'')])))
     = Some ''foo''"
  by (simp add: init_defs X0_def result_value_def)

theorem BiddingPolicy_taken_as_given_witness:
  "last_given ''bidding_policy'' [(''bidding_policy'', ''lowest''), (''regions'', ''eu-*'')]
     = Some ''lowest''
   \<and> list_all (flag_accepts X0)
       (filter (\<lambda>a. fst a \<noteq> ''bidding_policy'')
          [(''bidding_policy'', ''lowest''), (''regions'', ''eu-*'')])
   \<and> \<not> version_requested X0 [(''bidding_policy'', ''lowest''), (''regions'', ''eu-*'')]
   \<and> ec2instancesinfo_Data X0 = Inr ()
   \<and> fst (init X0 env0 [(''bidding_policy'', ''lowest''), (''regions'', ''eu-*'')]) = [Call_Data]
   \<and> map_option BiddingPolicy
        (result_value (snd (init X0 env0 [(''bidding_policy'', ''lowest''), (''regions'', ''eu-*'')])))
       = Some ''lowest''"
proof -
  let ?args = "[(''bidding_policy'', ''lowest''), (''regions'', ''eu-*'')]"
  have a: "last_given ''bidding_policy'' ?args = Some ''lowest''"
    by simp
  have b: "list_all (flag_accepts X0) (filter (\<lambda>a. fst a \<noteq> ''bidding_policy'') ?args)"
    by (simp add: flag_accepts_def flag_table_defs)
  have c: "\<not> version_requested X0 ?args"
    by (simp add: version_requested_def)
  have d: "ec2instancesinfo_Data X0 = Inr ()"
    by (simp add: X0_def)
  show ?thesis
    using BiddingPolicy_taken_as_given [OF a b c d, where env = env0] a b c d by simp
qed



theorem fetch_failure_is_fatal_witness:
  "ec2instancesinfo_Data X1 = Inl ''open data file: no such file''
   \<and> list_all (flag_accepts X1) [(''regions'', ''eu-*'')]
   \<and> \<not> version_requested X1 [(''regions'', ''eu-*'')]
   \<and> program X1 env0 [(''regions'', ''eu-*'')] =
       ([Call_Data, Log ''open data file: no such file''], Terminated 1)
   \<and> \<not> list_ex is_Run (fst (program X1 env0 [(''regions'', ''eu-*'')]))"
proof -
  have a: "ec2instancesinfo_Data X1 = Inl ''open data file: no such file''"
    by (simp add: X1_def)
  have b: "list_all (flag_accepts X1) [(''regions'', ''eu-*'')]"
    by (simp add: flag_accepts_def flag_table_defs)
  have c: "\<not> version_requested X1 [(''regions'', ''eu-*'')]"
    by (simp add: version_requested_def)
  show ?thesis
    using fetch_failure_is_fatal [OF a, where args = "[(''regions'', ''eu-*'')]" and env = env0]
      a b c
    by simp
qed

theorem entry_mode_witness:
  "Getenv env0 ''AWS_LAMBDA_FUNCTION_NAME'' \<noteq> []
   \<and> init X0 env0 [] = ([Call_Data], Continue conf0)
   \<and> program X0 env0 [] = ([Call_Data], Serving (Handler X0 conf0))
   \<and> Getenv Map.empty ''AWS_LAMBDA_FUNCTION_NAME'' = []
   \<and> init X0 Map.empty [] = ([Call_Data], Continue (conf0\<lparr>MainRegion := ''us-east-1''\<rparr>))
   \<and> program X0 Map.empty [] =
       ([Call_Data] @ run X0 (conf0\<lparr>MainRegion := ''us-east-1''\<rparr>), Terminated 0)"
proof -
  have a: "Getenv env0 ''AWS_LAMBDA_FUNCTION_NAME'' \<noteq> []"
    by (simp add: Getenv_def env0_def)
  have b: "Getenv Map.empty ''AWS_LAMBDA_FUNCTION_NAME'' = []"
    by (simp add: Getenv_def)
  show ?thesis
    using entry_mode [where env = env0 and X = X0 and conf = conf0 and args = "[]"
        and t = "[Call_Data]"]
      entry_mode [where env = Map.empty and X = X0
        and conf = "conf0\<lparr>MainRegion := ''us-east-1''\<rparr>" and args = "[]" and t = "[Call_Data]"]
      a b ex_init_lambda ex_init_direct
    by simp
qed

theorem MainRegion_fixed_at_init_witness:
  "init X0 env0 [] = ([Call_Data], Continue conf0)
   \<and> Getenv env0 ''AWS_REGION'' = ''eu-west-1''
   \<and> MainRegion conf0 = ''eu-west-1''
   \<and> snd (program X0 env0 []) = Serving (Handler X0 conf0)
   \<and> Call_Run conf0 \<in> set (fst (Handler X0 conf0 payload_scheduled))
   \<and> init X0 Map.empty [] = ([Call_Data], Continue (conf0\<lparr>MainRegion := ''us-east-1''\<rparr>))
   \<and> Getenv Map.empty ''AWS_REGION'' = []
   \<and> MainRegion (conf0\<lparr>MainRegion := ''us-east-1''\<rparr>) = ''us-east-1''
   \<and> Call_Run (conf0\<lparr>MainRegion := ''us-east-1''\<rparr>) \<in> set (fst (program X0 Map.empty []))"
proof -
  have a: "Getenv env0 ''AWS_REGION'' = ''eu-west-1''" "Getenv Map.empty ''AWS_REGION'' = []"
    by (simp_all add: Getenv_def env0_def)
  have m: "Getenv env0 ''AWS_LAMBDA_FUNCTION_NAME'' \<noteq> []"
    by (simp add: Getenv_def env0_def)
  have b: "snd (program X0 env0 []) = Serving (Handler X0 conf0)"
    by (simp add: program_def ex_init_lambda main_def m)
  have c: "Call_Run conf0 \<in> set (fst (Handler X0 conf0 payload_scheduled))"
    by (simp add: Handler_on_notification [OF ex_notification_scheduled] run_Call_Run
        event_scheduled_def interruption_warning_def)
  have d: "Call_Run (conf0\<lparr>MainRegion := ''us-east-1''\<rparr>) \<in> set (fst (program X0 Map.empty []))"
    by (simp add: program_def ex_init_direct main_def Getenv_def run_Call_Run)
  show ?thesis
    using MainRegion_fixed_at_init [OF ex_init_lambda] MainRegion_fixed_at_init [OF ex_init_direct]
      a b c d ex_init_lambda ex_init_direct
    by simp
qed

end
